theory Spec2Isabelle
  imports Main "HOL-Library.Word"
begin

section \<open>The filesystem abstraction header \<^verbatim>\<open>vcpkg/base/files.h\<close>\<close>

text \<open>
  The header declares the unified file-status model of namespace \<^verbatim>\<open>fs\<close>
  (\<^verbatim>\<open>file_type\<close>, \<^verbatim>\<open>file_status\<close>, \<^verbatim>\<open>SystemHandle\<close> and the predicates on a
  status), the abstract \<^verbatim>\<open>Filesystem\<close> interface and a few path utilities.
  Everything with a body in the header is embedded below as it is written. The two
  branches of \<^verbatim>\<open>#if defined(_WIN32)\<close> are kept apart by a platform value that the
  functions with a conditional body take as an argument.
\<close>

subsection \<open>Platform\<close>

datatype platform = Win32 | Posix

subsection \<open>\<^verbatim>\<open>fs::file_type\<close> and \<^verbatim>\<open>fs::perms\<close>\<close>

text \<open>
  The enumeration of lines 55 to 69. On Windows the header declares it itself, with
  \<^verbatim>\<open>directory_symlink\<close> (which also stands for a junction) as an eleventh
  enumerator. Elsewhere the type is \<^verbatim>\<open>std::filesystem::file_type\<close>, which has the
  first ten enumerators only.
\<close>

datatype file_type =
    none
  | not_found
  | regular
  | directory
  | symlink
  | block
  | character
  | fifo
  | socket
  | unknown
  | directory_symlink

text \<open>The enumerators' integer values, as the Windows branch writes them.\<close>

fun file_type_value :: "file_type \<Rightarrow> int" where
  "file_type_value none = 0"
| "file_type_value not_found = - 1"
| "file_type_value regular = 1"
| "file_type_value directory = 2"
| "file_type_value symlink = 3"
| "file_type_value block = 4"
| "file_type_value character = 5"
| "file_type_value fifo = 6"
| "file_type_value socket = 7"
| "file_type_value unknown = 8"
| "file_type_value directory_symlink = 42"

text \<open>
  \<^verbatim>\<open>fs::perms\<close> is \<^verbatim>\<open>std::filesystem::perms\<close>, a bit mask whose declaration is in the
  standard library and not in the header: 32 bits, with \<^verbatim>\<open>perms::unknown = 0xFFFF\<close> as
  the C++ standard fixes it.
\<close>

type_synonym perms = "32 word"

definition perms_unknown :: perms where
  "perms_unknown = 0xFFFF"

subsection \<open>\<^verbatim>\<open>fs::file_status\<close>\<close>

record file_status =
  m_type :: file_type
  m_permissions :: perms

text \<open>
  The constructor has a default for each argument
  (\<^verbatim>\<open>file_type type = file_type::none, perms permissions = perms::unknown\<close>); an argument
  left out is \<open>None\<close> here. The POSIX branch inherits the constructors of
  \<^verbatim>\<open>std::filesystem::file_status\<close>, which have the same defaults.
\<close>

definition file_status_ctor :: "file_type option \<Rightarrow> perms option \<Rightarrow> file_status" where
  "file_status_ctor t p =
     \<lparr>m_type = (case t of None \<Rightarrow> none | Some x \<Rightarrow> x),
      m_permissions = (case p of None \<Rightarrow> perms_unknown | Some x \<Rightarrow> x)\<rparr>"

definition type :: "file_status \<Rightarrow> file_type" where
  "type s = m_type s"

definition set_type :: "file_type \<Rightarrow> file_status \<Rightarrow> file_status" where
  "set_type t s = s\<lparr>m_type := t\<rparr>"

definition permissions :: "file_status \<Rightarrow> perms" where
  "permissions s = m_permissions s"

definition set_permissions :: "perms \<Rightarrow> file_status \<Rightarrow> file_status" where
  "set_permissions p s = s\<lparr>m_permissions := p\<rparr>"

subsection \<open>\<^verbatim>\<open>fs::SystemHandle\<close>\<close>

text \<open>
  The native value is an \<^verbatim>\<open>intptr_t\<close> (a \<^verbatim>\<open>HANDLE\<close>) on Windows and an \<^verbatim>\<open>int\<close> (a file
  descriptor) elsewhere; both bodies are the same, so the record is polymorphic in the
  native type and \<open>is_valid\<close> in the word length. The member initialiser is
  \<^verbatim>\<open>system_handle = -1\<close>.
\<close>

record 'n SystemHandle =
  system_handle :: 'n

type_synonym SystemHandle_win32 = "64 word SystemHandle"

type_synonym SystemHandle_posix = "32 word SystemHandle"

definition SystemHandle_ctor :: "('a::len) word SystemHandle" where
  "SystemHandle_ctor = \<lparr>system_handle = - 1\<rparr>"

definition is_valid :: "('a::len) word SystemHandle \<Rightarrow> bool" where
  "is_valid h = (system_handle h \<noteq> - 1)"

subsection \<open>The predicates on a status\<close>

text \<open>
  Lines 119 to 128. The test for \<^verbatim>\<open>directory_symlink\<close> in \<^verbatim>\<open>is_symlink\<close> is compiled on
  Windows only.
\<close>

definition is_symlink :: "platform \<Rightarrow> file_status \<Rightarrow> bool" where
  "is_symlink pf s =
     (if pf = Win32 \<and> type s = directory_symlink then True
      else type s = symlink)"

definition is_regular_file :: "file_status \<Rightarrow> bool" where
  "is_regular_file s = (type s = regular)"

definition is_directory :: "file_status \<Rightarrow> bool" where
  "is_directory s = (type s = directory)"

definition exists :: "file_status \<Rightarrow> bool" where
  "exists s = (type s \<noteq> not_found \<and> type s \<noteq> none)"

subsection \<open>Path utilities\<close>

text \<open>
  Line 231: the raw string literal \<^verbatim>\<open>R"(\/:*?"<>|)"\<close>, byte by byte (0x5C is the
  backslash, 0x22 the double quote).
\<close>

definition FILESYSTEM_INVALID_CHARACTERS :: string where
  "FILESYSTEM_INVALID_CHARACTERS =
     [CHR 0x5C, CHR ''/'', CHR '':'', CHR ''*'', CHR ''?'', CHR 0x22,
      CHR ''<'', CHR ''>'', CHR ''|'']"

definition preferred_separator :: "platform \<Rightarrow> char" where
  "preferred_separator pf = (if pf = Win32 then CHR 0x5C else CHR ''/'')"

section \<open>The operations whose bodies are not in the header\<close>

text \<open>
  The header only declares \<^verbatim>\<open>has_invalid_chars_for_filesystem\<close> (line 233) and the
  pure virtual members of \<^verbatim>\<open>Filesystem\<close> (lines 153 to 227); their bodies are in a
  translation unit that is not part of the sources at hand. What follows models them
  from the specification, and every fact proved about them is a fact about that model.
\<close>

subsection \<open>Recoverable errors\<close>

text \<open>
  A \<^verbatim>\<open>std::error_code\<close> out-parameter is an optional error: \<open>None\<close> is the cleared code.
\<close>

datatype error = NotFound | IOError | LockNotAcquired | SymlinkLoop

type_synonym error_code = "error option"

subsection \<open>Name validation\<close>

text \<open>
  Modelled from the spec: the search that the missing body of
  \<^verbatim>\<open>has_invalid_chars_for_filesystem\<close> needs, as \<^verbatim>\<open>std::string::find_first_of\<close> does it:
  the position of the first character of the string that occurs in \<open>cs\<close>, \<open>None\<close> for
  \<^verbatim>\<open>npos\<close>.
\<close>

fun find_first_of :: "string \<Rightarrow> string \<Rightarrow> nat option" where
  "find_first_of [] cs = None"
| "find_first_of (x # xs) cs =
     (if x \<in> set cs then Some 0 else map_option Suc (find_first_of xs cs))"

text \<open>
  Modelled from the spec: the body of \<^verbatim>\<open>has_invalid_chars_for_filesystem\<close> is missing.
  The specification gives the reserved characters "for name validation"; a name is
  invalid when one of them occurs in it.
\<close>

definition has_invalid_chars_for_filesystem :: "string \<Rightarrow> bool" where
  "has_invalid_chars_for_filesystem s =
     (find_first_of s FILESYSTEM_INVALID_CHARACTERS \<noteq> None)"

subsection \<open>Reading lines\<close>

text \<open>
  Modelled from the spec: the body of \<^verbatim>\<open>Filesystem::read_lines\<close> is missing. The
  specification reads the lines of a file and strips at most one trailing carriage
  return from each; a file \<^verbatim>\<open>"a\r\nb\n"\<close> has the two lines \<^verbatim>\<open>a\<close> and \<^verbatim>\<open>b\<close>, so a line
  feed ends a line and a final line feed starts no further line. \<open>getlines\<close> is that
  loop: \<open>line\<close> holds the characters of the current line read so far.
\<close>

fun getlines :: "string \<Rightarrow> string \<Rightarrow> string list" where
  "getlines line [] = (if line = [] then [] else [line])"
| "getlines line (c # cs) =
     (if c = CHR 0x0A then line # getlines [] cs else getlines (line @ [c]) cs)"

text \<open>
  Modelled from the spec: "at most one trailing carriage-return stripped per line".
\<close>

definition strip_cr :: "string \<Rightarrow> string" where
  "strip_cr line = (if line \<noteq> [] \<and> last line = CHR 0x0D then butlast line else line)"

text \<open>
  Modelled from the spec: the files the native provider can read, each path with its
  contents, and \<^verbatim>\<open>read_lines\<close> on it; a path that is absent fails with \<open>NotFound\<close>.
\<close>

type_synonym file_store = "string \<rightharpoonup> string"

definition read_lines :: "file_store \<Rightarrow> string \<Rightarrow> error + string list" where
  "read_lines fs file_path =
     (case fs file_path of
        None \<Rightarrow> Inl NotFound
      | Some contents \<Rightarrow> Inr (map strip_cr (getlines [] contents)))"

subsection \<open>Status queries\<close>

text \<open>
  Modelled from the spec: the bodies of \<^verbatim>\<open>Filesystem::symlink_status\<close> and
  \<^verbatim>\<open>Filesystem::status\<close> are missing. The native provider is a table from paths to
  entries; \<open>symlink_status\<close> reports the entry itself, \<open>status\<close> follows symbolic links
  to the final target. A path with no entry yields \<^verbatim>\<open>not_found\<close> with the error code
  cleared. The number of links \<open>status\<close> follows is the provider's limit, an argument.
\<close>

record entry =
  e_type :: file_type
  e_perms :: perms
  e_target :: string

type_synonym tree = "string \<rightharpoonup> entry"

definition symlink_status :: "tree \<Rightarrow> string \<Rightarrow> file_status \<times> error_code" where
  "symlink_status fs p =
     (case fs p of
        None \<Rightarrow> (file_status_ctor (Some not_found) None, None)
      | Some e \<Rightarrow> (file_status_ctor (Some (e_type e)) (Some (e_perms e)), None))"

text \<open>
  Modelled from the spec: "\<^verbatim>\<open>status\<close> follows symlinks to report the final target's type;
  \<^verbatim>\<open>symlink_status\<close> does not". More links than the limit is an error, and the status
  returned with it is the default-constructed one.
\<close>

fun status :: "nat \<Rightarrow> tree \<Rightarrow> string \<Rightarrow> file_status \<times> error_code" where
  "status 0 fs p =
     (case fs p of
        None \<Rightarrow> (file_status_ctor (Some not_found) None, None)
      | Some e \<Rightarrow>
          if e_type e = symlink \<or> e_type e = directory_symlink
          then (file_status_ctor None None, Some SymlinkLoop)
          else (file_status_ctor (Some (e_type e)) (Some (e_perms e)), None))"
| "status (Suc n) fs p =
     (case fs p of
        None \<Rightarrow> (file_status_ctor (Some not_found) None, None)
      | Some e \<Rightarrow>
          if e_type e = symlink \<or> e_type e = directory_symlink
          then status n fs (e_target e)
          else (file_status_ctor (Some (e_type e)) (Some (e_perms e)), None))"

subsection \<open>File locks\<close>

text \<open>
  Modelled from the spec: the bodies of \<^verbatim>\<open>Filesystem::try_take_exclusive_file_lock\<close>
  and \<^verbatim>\<open>Filesystem::unlock_file_lock\<close> are missing. The provider's state is the table of
  the locks that are held: the locked path and the native value of the holder's
  handle. \<open>native\<close> is what the operating system answers when the lock is free: the new
  native value, or \<open>- 1\<close> when it fails. A lock held by another holder is not acquired
  within the budget, and the handle returned is the default one.

  The signatures are those of lines 223 and 224: \<^verbatim>\<open>unlock_file_lock\<close> takes the handle
  by value and returns nothing, so the caller's handle is the same value after the call;
  the result here is the error code and the provider's new state. Releasing an invalid
  handle does nothing and is no error.
\<close>

type_synonym 'n lock_table = "(string \<times> 'n) list"

text \<open>
  Modelled from the spec: a handle holds a lock when "a native lock/resource was
  successfully acquired and not yet released", that is, when its native value is in the
  table.
\<close>

definition holds :: "('a::len) word lock_table \<Rightarrow> 'a word SystemHandle \<Rightarrow> bool" where
  "holds tbl h = (system_handle h \<in> snd ` set tbl)"

text \<open>
  Modelled from the spec: bounded acquisition, which "fails with a recoverable error if
  not acquired within budget".
\<close>

definition try_take_exclusive_file_lock ::
  "('a::len) word \<Rightarrow> 'a word lock_table \<Rightarrow> string
     \<Rightarrow> ('a word SystemHandle \<times> error_code) \<times> 'a word lock_table" where
  "try_take_exclusive_file_lock native tbl path =
     (if path \<in> fst ` set tbl then ((SystemHandle_ctor, Some LockNotAcquired), tbl)
      else if native = - 1 then ((SystemHandle_ctor, Some IOError), tbl)
      else ((\<lparr>system_handle = native\<rparr>, None), (path, native) # tbl))"

text \<open>
  Modelled from the spec: release, "idempotent-safe to call on an already-invalid handle
  (no-op, not an error)".
\<close>

definition unlock_file_lock ::
  "('a::len) word lock_table \<Rightarrow> 'a word SystemHandle \<Rightarrow> error_code \<times> 'a word lock_table" where
  "unlock_file_lock tbl handle =
     (if is_valid handle
      then (None, filter (\<lambda>(p, n). n \<noteq> system_handle handle) tbl)
      else (None, tbl))"

section \<open>The predicates on a status\<close>

text \<open>
  C1. For every status \<open>s\<close>, \<open>is_symlink\<close> is true when the type of \<open>s\<close> is \<open>symlink\<close>, on
  Windows also when it is the distinct type \<open>directory_symlink\<close> (a junction), and
  false for every other type, on either platform.
\<close>

theorem is_symlink_iff:
  "(is_symlink pf s \<longleftrightarrow> type s = symlink \<or> (pf = Win32 \<and> type s = directory_symlink))
   \<and> (is_symlink Win32 s \<longleftrightarrow> type s \<in> {symlink, directory_symlink})
   \<and> (is_symlink Posix s \<longleftrightarrow> type s = symlink)
   \<and> directory_symlink \<noteq> symlink
   \<and> file_type_value directory_symlink \<noteq> file_type_value symlink"
  by (simp add: is_symlink_def)

text \<open>
  C2. For every status \<open>s\<close>, \<open>exists\<close> is true if and only if the type of \<open>s\<close> is neither
  \<open>not_found\<close> nor \<open>none\<close>: that is, for the nine other types.
\<close>

theorem exists_iff:
  "(exists s \<longleftrightarrow> type s \<noteq> not_found \<and> type s \<noteq> none)
   \<and> (exists s \<longleftrightarrow>
        type s \<in> {regular, directory, symlink, block, character, fifo, socket, unknown,
                   directory_symlink})"
  by (cases "type s") (simp_all add: exists_def)

text \<open>
  C9. For every status \<open>s\<close>, \<open>is_directory\<close> is true exactly for the type \<open>directory\<close> and
  \<open>is_regular_file\<close> exactly for the type \<open>regular\<close>; a status of type
  \<open>directory_symlink\<close> is a symlink on Windows and neither a directory nor a regular
  file.
\<close>

theorem is_directory_is_regular_file_iff:
  "(is_directory s \<longleftrightarrow> type s = directory)
   \<and> (is_regular_file s \<longleftrightarrow> type s = regular)
   \<and> (type s = directory_symlink \<longrightarrow>
        is_symlink Win32 s \<and> \<not> is_directory s \<and> \<not> is_regular_file s)"
  by (simp add: is_directory_def is_regular_file_def is_symlink_def)

theorem is_directory_is_regular_file_witness:
  "type (file_status_ctor (Some directory_symlink) None) = directory_symlink
   \<and> is_symlink Win32 (file_status_ctor (Some directory_symlink) None)
   \<and> \<not> is_directory (file_status_ctor (Some directory_symlink) None)
   \<and> \<not> is_regular_file (file_status_ctor (Some directory_symlink) None)"
  using is_directory_is_regular_file_iff [of "file_status_ctor (Some directory_symlink) None"]
  by (simp add: file_status_ctor_def type_def)

text \<open>
  C10. The four predicates depend on the type of a status only: two statuses of the
  same type, whatever their permissions, get the same answer from each predicate.
\<close>

theorem predicates_depend_on_type_only:
  assumes "type s1 = type s2"
  shows "is_symlink pf s1 = is_symlink pf s2
    \<and> is_regular_file s1 = is_regular_file s2
    \<and> is_directory s1 = is_directory s2
    \<and> exists s1 = exists s2"
  using assms by (simp add: is_symlink_def is_regular_file_def is_directory_def exists_def)

theorem predicates_depend_on_type_only_witness:
  "type (file_status_ctor (Some symlink) (Some 0x1FF)) = type (file_status_ctor (Some symlink) None)
   \<and> permissions (file_status_ctor (Some symlink) (Some 0x1FF))
       \<noteq> permissions (file_status_ctor (Some symlink) None)
   \<and> is_symlink Posix (file_status_ctor (Some symlink) (Some 0x1FF))
       = is_symlink Posix (file_status_ctor (Some symlink) None)
   \<and> is_regular_file (file_status_ctor (Some symlink) (Some 0x1FF))
       = is_regular_file (file_status_ctor (Some symlink) None)
   \<and> is_directory (file_status_ctor (Some symlink) (Some 0x1FF))
       = is_directory (file_status_ctor (Some symlink) None)
   \<and> exists (file_status_ctor (Some symlink) (Some 0x1FF))
       = exists (file_status_ctor (Some symlink) None)"
proof -
  have same: "type (file_status_ctor (Some symlink) (Some 0x1FF))
      = type (file_status_ctor (Some symlink) None)"
    by (simp add: file_status_ctor_def type_def)
  have differ: "permissions (file_status_ctor (Some symlink) (Some 0x1FF))
      \<noteq> permissions (file_status_ctor (Some symlink) None)"
    by (simp add: file_status_ctor_def permissions_def perms_unknown_def)
  from predicates_depend_on_type_only [OF same, of Posix] same differ
  show ?thesis by blast
qed

section \<open>Name validation\<close>

lemma find_first_of_None_iff:
  "find_first_of s cs = None \<longleftrightarrow> set s \<inter> set cs = {}"
  by (induction s) auto

lemma find_first_of_Some:
  "find_first_of s cs = Some i \<Longrightarrow>
     i < length s \<and> s ! i \<in> set cs \<and> (\<forall>j<i. s ! j \<notin> set cs)"
proof (induction s arbitrary: i)
  case Nil
  then show ?case by simp
next
  case (Cons x xs)
  show ?case
  proof (cases "x \<in> set cs")
    case True
    with Cons.prems show ?thesis by simp
  next
    case False
    with Cons.prems obtain k where k: "find_first_of xs cs = Some k" "i = Suc k"
      by auto
    from Cons.IH [OF k(1)] False k(2) show ?thesis
      by (auto simp: nth_Cons split: nat.splits)
  qed
qed

text \<open>
  C8. The reserved characters are exactly the nine characters backslash, slash, colon,
  asterisk, question mark, double quote, less-than, greater-than and vertical bar, and
  \<open>has_invalid_chars_for_filesystem\<close> is true of a string if and only if at least one of
  them occurs in it.
\<close>

theorem invalid_characters:
  "length FILESYSTEM_INVALID_CHARACTERS = 9
   \<and> distinct FILESYSTEM_INVALID_CHARACTERS
   \<and> set FILESYSTEM_INVALID_CHARACTERS =
       {CHR 0x5C, CHR ''/'', CHR '':'', CHR ''*'', CHR ''?'', CHR 0x22, CHR ''<'', CHR ''>'', CHR ''|''}
   \<and> (has_invalid_chars_for_filesystem s \<longleftrightarrow>
        (\<exists>c \<in> set s. c \<in> set FILESYSTEM_INVALID_CHARACTERS))"
proof -
  have "has_invalid_chars_for_filesystem s \<longleftrightarrow>
        (\<exists>c \<in> set s. c \<in> set FILESYSTEM_INVALID_CHARACTERS)"
    unfolding has_invalid_chars_for_filesystem_def find_first_of_None_iff by blast
  moreover have "length FILESYSTEM_INVALID_CHARACTERS = 9"
    and "distinct FILESYSTEM_INVALID_CHARACTERS"
    and "set FILESYSTEM_INVALID_CHARACTERS =
       {CHR 0x5C, CHR ''/'', CHR '':'', CHR ''*'', CHR ''?'', CHR 0x22, CHR ''<'', CHR ''>'', CHR ''|''}"
    by (simp_all add: FILESYSTEM_INVALID_CHARACTERS_def)
  ultimately show ?thesis by blast
qed

section \<open>Reading lines\<close>

lemma getlines_no_lf:
  "CHR 0x0A \<notin> set line \<Longrightarrow> l \<in> set (getlines line cs) \<Longrightarrow> CHR 0x0A \<notin> set l"
proof (induction cs arbitrary: line)
  case Nil
  then show ?case by (simp split: if_splits)
next
  case (Cons c cs)
  show ?case
  proof (cases "c = CHR 0x0A")
    case True
    with Cons.prems have "l = line \<or> l \<in> set (getlines [] cs)" by simp
    then show ?thesis
    proof
      assume "l = line"
      with Cons.prems show ?thesis by simp
    next
      assume "l \<in> set (getlines [] cs)"
      with Cons.IH [of "[]"] show ?thesis by simp
    qed
  next
    case False
    with Cons.prems have "l \<in> set (getlines (line @ [c]) cs)" by simp
    moreover from False Cons.prems have "CHR 0x0A \<notin> set (line @ [c])" by simp
    ultimately show ?thesis by (rule Cons.IH [rotated])
  qed
qed

lemma getlines_unlines:
  "concat (map (\<lambda>l. l @ [CHR 0x0A]) (getlines line cs)) =
     (if cs = [] then (if line = [] then [] else line @ [CHR 0x0A])
      else if last cs = CHR 0x0A then line @ cs
      else line @ cs @ [CHR 0x0A])"
  by (induction cs arbitrary: line) auto

lemma strip_cr_cases:
  "l = strip_cr l \<or> l = strip_cr l @ [CHR 0x0D]"
  by (metis append_butlast_last_id strip_cr_def)

lemma strip_cr_ends:
  "l \<noteq> [] \<Longrightarrow> last l = CHR 0x0D \<Longrightarrow> l = strip_cr l @ [CHR 0x0D]"
  using append_butlast_last_id [of l] by (simp add: strip_cr_def)


text \<open>
  C5. Reading the lines of a file that exists succeeds with a list \<open>ls\<close> that comes from
  the raw lines of the contents (the pieces between line feeds: none contains a line
  feed, and joined with line feeds they give the contents back, up to the final line
  feed), one for one, by stripping at most one trailing carriage return: a raw line that
  ends with a carriage return loses exactly that one, any other is unchanged. The file
  \<^verbatim>\<open>"a\r\nb\n"\<close> has exactly the two lines \<^verbatim>\<open>a\<close> and \<^verbatim>\<open>b\<close>.
\<close>

theorem read_lines_strips_one_cr:
  assumes "fs file_path = Some contents"
  shows "\<exists>raw ls. read_lines fs file_path = Inr ls
      \<and> (\<forall>l \<in> set raw. CHR 0x0A \<notin> set l)
      \<and> concat (map (\<lambda>l. l @ [CHR 0x0A]) raw) =
          (if contents = [] \<or> last contents = CHR 0x0A then contents
           else contents @ [CHR 0x0A])
      \<and> length ls = length raw
      \<and> (\<forall>i < length raw.
            (raw ! i = ls ! i \<or> raw ! i = ls ! i @ [CHR 0x0D])
            \<and> (raw ! i \<noteq> [] \<and> last (raw ! i) = CHR 0x0D \<longrightarrow> raw ! i = ls ! i @ [CHR 0x0D]))
      \<and> (contents = [CHR ''a'', CHR 0x0D, CHR 0x0A, CHR ''b'', CHR 0x0A] \<longrightarrow> ls = [''a'', ''b''])"
proof -
  let ?raw = "getlines [] contents"
  let ?ls = "map strip_cr ?raw"
  have r: "read_lines fs file_path = Inr ?ls"
    using assms by (simp add: read_lines_def)
  have nolf: "\<forall>l \<in> set ?raw. CHR 0x0A \<notin> set l"
    using getlines_no_lf [of "[]"] by simp
  have unl: "concat (map (\<lambda>l. l @ [CHR 0x0A]) ?raw) =
          (if contents = [] \<or> last contents = CHR 0x0A then contents
           else contents @ [CHR 0x0A])"
    by (simp add: getlines_unlines)
  have each: "\<forall>i < length ?raw.
            (?raw ! i = ?ls ! i \<or> ?raw ! i = ?ls ! i @ [CHR 0x0D])
            \<and> (?raw ! i \<noteq> [] \<and> last (?raw ! i) = CHR 0x0D \<longrightarrow> ?raw ! i = ?ls ! i @ [CHR 0x0D])"
    using strip_cr_cases strip_cr_ends by simp
  have ex: "contents = [CHR ''a'', CHR 0x0D, CHR 0x0A, CHR ''b'', CHR 0x0A] \<longrightarrow> ?ls = [''a'', ''b'']"
    by (simp add: strip_cr_def)
  from r nolf unl each ex show ?thesis
    by (intro exI [of _ ?raw] exI [of _ ?ls]) simp
qed

theorem read_lines_witness:
  "read_lines [''f'' \<mapsto> [CHR ''a'', CHR 0x0D, CHR 0x0A, CHR ''b'', CHR 0x0A]] ''f''
     = Inr [''a'', ''b'']"
  using read_lines_strips_one_cr
    [of "[''f'' \<mapsto> [CHR ''a'', CHR 0x0D, CHR 0x0A, CHR ''b'', CHR 0x0A]]" "''f''"
        "[CHR ''a'', CHR 0x0D, CHR 0x0A, CHR ''b'', CHR 0x0A]"]
  by auto

section \<open>A status always has a type\<close>

lemma status_not_found:
  "fs path = None \<Longrightarrow> status n fs path = (file_status_ctor (Some not_found) None, None)"
  by (cases n) simp_all

lemma status_final:
  "fs path = Some e \<Longrightarrow> e_type e \<noteq> symlink \<Longrightarrow> e_type e \<noteq> directory_symlink \<Longrightarrow>
     status n fs path = (file_status_ctor (Some (e_type e)) (Some (e_perms e)), None)"
  by (cases n) simp_all

lemma status_follows:
  "fs path = Some e \<Longrightarrow> e_type e = symlink \<or> e_type e = directory_symlink \<Longrightarrow>
     status (Suc n) fs path = status n fs (e_target e)"
  by simp

lemma status_result:
  "status n fs path = (file_status_ctor (Some not_found) None, None)
   \<or> status n fs path = (file_status_ctor None None, Some SymlinkLoop)
   \<or> (\<exists>q e. fs q = Some e \<and> e_type e \<noteq> symlink \<and> e_type e \<noteq> directory_symlink
          \<and> status n fs path = (file_status_ctor (Some (e_type e)) (Some (e_perms e)), None))"
proof (induction n arbitrary: path)
  case 0
  show ?case
  proof (cases "fs path")
    case None
    then show ?thesis by simp
  next
    case (Some e)
    then show ?thesis by (cases "e_type e = symlink \<or> e_type e = directory_symlink") auto
  qed
next
  case (Suc n)
  show ?case
  proof (cases "fs path")
    case None
    then show ?thesis by simp
  next
    case (Some e)
    show ?thesis
    proof (cases "e_type e = symlink \<or> e_type e = directory_symlink")
      case True
      with Some have "status (Suc n) fs path = status n fs (e_target e)" by simp
      with Suc.IH [of "e_target e"] show ?thesis by simp
    next
      case False
      with Some have "status (Suc n) fs path
          = (file_status_ctor (Some (e_type e)) (Some (e_perms e)), None)" by simp
      with Some False show ?thesis by blast
    qed
  qed
qed

lemma type_ctor: "type (file_status_ctor (Some t) p) = t"
  by (simp add: file_status_ctor_def type_def)

lemma permissions_ctor: "permissions (file_status_ctor t (Some p)) = p"
  by (simp add: file_status_ctor_def permissions_def)

text \<open>
  C6. A default-constructed status has type \<open>none\<close> and permissions \<open>unknown\<close>, and a
  status constructed or assigned with a type has that type. A query never raises: it
  returns a status and an error code. On a path that does not exist both queries
  return type \<open>not_found\<close> with the error code cleared. On a path that exists
  \<open>symlink_status\<close> returns the type and the permissions of the entry itself; \<open>status\<close>
  returns those of the entry when it is no link and otherwise goes on at the link's
  target. Whenever \<open>status\<close> succeeds, its type is \<open>not_found\<close> or the type of an entry of
  the provider that is no link; when it fails, the error is the exceeded link limit and
  the status is the default one. So when no entry of the provider stores \<open>none\<close>, no
  successful query leaves the type \<open>none\<close>.
\<close>

theorem file_status_type_initialized:
  "type (file_status_ctor None None) = none
   \<and> permissions (file_status_ctor None None) = perms_unknown
   \<and> type (file_status_ctor (Some t) p) = t
   \<and> type (set_type t s) = t
   \<and> (fs path = None \<longrightarrow>
         type (fst (symlink_status fs path)) = not_found
       \<and> snd (symlink_status fs path) = None
       \<and> type (fst (status n fs path)) = not_found
       \<and> snd (status n fs path) = None)
   \<and> (fs path = Some e \<longrightarrow>
         type (fst (symlink_status fs path)) = e_type e
       \<and> permissions (fst (symlink_status fs path)) = e_perms e
       \<and> snd (symlink_status fs path) = None)
   \<and> (fs path = Some e \<and> e_type e \<noteq> symlink \<and> e_type e \<noteq> directory_symlink \<longrightarrow>
         type (fst (status n fs path)) = e_type e
       \<and> permissions (fst (status n fs path)) = e_perms e
       \<and> snd (status n fs path) = None)
   \<and> (fs path = Some e \<and> (e_type e = symlink \<or> e_type e = directory_symlink) \<longrightarrow>
         status (Suc n) fs path = status n fs (e_target e))
   \<and> (snd (status n fs path) = None \<longrightarrow>
         type (fst (status n fs path)) = not_found
       \<or> (\<exists>q e'. fs q = Some e' \<and> type (fst (status n fs path)) = e_type e'
             \<and> permissions (fst (status n fs path)) = e_perms e'
             \<and> e_type e' \<noteq> symlink \<and> e_type e' \<noteq> directory_symlink))
   \<and> (snd (status n fs path) \<noteq> None \<longrightarrow>
         status n fs path = (file_status_ctor None None, Some SymlinkLoop))
   \<and> ((\<forall>q e'. fs q = Some e' \<longrightarrow> e_type e' \<noteq> none) \<longrightarrow>
         type (fst (symlink_status fs path)) \<noteq> none
       \<and> (snd (status n fs path) = None \<longrightarrow> type (fst (status n fs path)) \<noteq> none))"
proof -
  have ctor: "type (file_status_ctor None None) = none"
    "permissions (file_status_ctor None None) = perms_unknown"
    "type (file_status_ctor (Some t) p) = t"
    "type (set_type t s) = t"
    by (simp_all add: file_status_ctor_def type_def permissions_def set_type_def)
  have absent: "fs path = None \<longrightarrow>
         type (fst (symlink_status fs path)) = not_found
       \<and> snd (symlink_status fs path) = None
       \<and> type (fst (status n fs path)) = not_found
       \<and> snd (status n fs path) = None"
    by (simp add: status_not_found symlink_status_def type_ctor)
  have lstat: "fs path = Some e \<longrightarrow>
         type (fst (symlink_status fs path)) = e_type e
       \<and> permissions (fst (symlink_status fs path)) = e_perms e
       \<and> snd (symlink_status fs path) = None"
    by (simp add: symlink_status_def type_ctor permissions_ctor)
  have final: "fs path = Some e \<and> e_type e \<noteq> symlink \<and> e_type e \<noteq> directory_symlink \<longrightarrow>
         type (fst (status n fs path)) = e_type e
       \<and> permissions (fst (status n fs path)) = e_perms e
       \<and> snd (status n fs path) = None"
    by (simp add: status_final type_ctor permissions_ctor)
  have follow: "fs path = Some e \<and> (e_type e = symlink \<or> e_type e = directory_symlink) \<longrightarrow>
         status (Suc n) fs path = status n fs (e_target e)"
    by auto
  have ok: "snd (status n fs path) = None \<longrightarrow>
         type (fst (status n fs path)) = not_found
       \<or> (\<exists>q e'. fs q = Some e' \<and> type (fst (status n fs path)) = e_type e'
             \<and> permissions (fst (status n fs path)) = e_perms e'
             \<and> e_type e' \<noteq> symlink \<and> e_type e' \<noteq> directory_symlink)"
  proof
    assume clear: "snd (status n fs path) = None"
    from status_result [of n fs path] consider
        (absent) "status n fs path = (file_status_ctor (Some not_found) None, None)"
      | (loop) "status n fs path = (file_status_ctor None None, Some SymlinkLoop)"
      | (found) q x where "fs q = Some x" "e_type x \<noteq> symlink"
          "e_type x \<noteq> directory_symlink"
          "status n fs path = (file_status_ctor (Some (e_type x)) (Some (e_perms x)), None)"
      by blast
    then show "type (fst (status n fs path)) = not_found
       \<or> (\<exists>q e'. fs q = Some e' \<and> type (fst (status n fs path)) = e_type e'
             \<and> permissions (fst (status n fs path)) = e_perms e'
             \<and> e_type e' \<noteq> symlink \<and> e_type e' \<noteq> directory_symlink)"
    proof cases
      case absent
      then show ?thesis by (simp add: type_ctor)
    next
      case loop
      with clear show ?thesis by simp
    next
      case found
      from found(4) have "type (fst (status n fs path)) = e_type x"
        "permissions (fst (status n fs path)) = e_perms x"
        by (simp_all add: type_ctor permissions_ctor)
      with found(1-3) show ?thesis by blast
    qed
  qed
  have err: "snd (status n fs path) \<noteq> None \<longrightarrow>
         status n fs path = (file_status_ctor None None, Some SymlinkLoop)"
    using status_result [of n fs path] by auto
  have init: "(\<forall>q e'. fs q = Some e' \<longrightarrow> e_type e' \<noteq> none) \<longrightarrow>
         type (fst (symlink_status fs path)) \<noteq> none
       \<and> (snd (status n fs path) = None \<longrightarrow> type (fst (status n fs path)) \<noteq> none)"
  proof
    assume wf: "\<forall>q e'. fs q = Some e' \<longrightarrow> e_type e' \<noteq> none"
    have a: "type (fst (symlink_status fs path)) \<noteq> none"
    proof (cases "fs path")
      case None
      then show ?thesis by (simp add: symlink_status_def type_ctor)
    next
      case (Some x)
      with wf have "e_type x \<noteq> none" by blast
      with Some show ?thesis by (simp add: symlink_status_def type_ctor)
    qed
    have b: "snd (status n fs path) = None \<longrightarrow> type (fst (status n fs path)) \<noteq> none"
    proof
      assume "snd (status n fs path) = None"
      with ok have "type (fst (status n fs path)) = not_found
        \<or> (\<exists>q e'. fs q = Some e' \<and> type (fst (status n fs path)) = e_type e')"
        by blast
      with wf show "type (fst (status n fs path)) \<noteq> none" by auto
    qed
    from a b show "type (fst (symlink_status fs path)) \<noteq> none
       \<and> (snd (status n fs path) = None \<longrightarrow> type (fst (status n fs path)) \<noteq> none)"
      by blast
  qed
  from ctor absent lstat final follow ok err init show ?thesis by blast
qed

theorem file_status_type_initialized_witness:
  "type (fst (symlink_status
        [''f'' \<mapsto> \<lparr>e_type = regular, e_perms = 0x1A4, e_target = ''''\<rparr>,
         ''l'' \<mapsto> \<lparr>e_type = symlink, e_perms = 0x1FF, e_target = ''f''\<rparr>] ''l'')) = symlink
   \<and> status (Suc 0)
        [''f'' \<mapsto> \<lparr>e_type = regular, e_perms = 0x1A4, e_target = ''''\<rparr>,
         ''l'' \<mapsto> \<lparr>e_type = symlink, e_perms = 0x1FF, e_target = ''f''\<rparr>] ''l''
       = (file_status_ctor (Some regular) (Some 0x1A4), None)
   \<and> type (fst (status (Suc 0)
        [''f'' \<mapsto> \<lparr>e_type = regular, e_perms = 0x1A4, e_target = ''''\<rparr>,
         ''l'' \<mapsto> \<lparr>e_type = symlink, e_perms = 0x1FF, e_target = ''f''\<rparr>] ''l'')) \<noteq> none
   \<and> status 0
        [''f'' \<mapsto> \<lparr>e_type = regular, e_perms = 0x1A4, e_target = ''''\<rparr>,
         ''l'' \<mapsto> \<lparr>e_type = symlink, e_perms = 0x1FF, e_target = ''f''\<rparr>] ''l''
       = (file_status_ctor None None, Some SymlinkLoop)
   \<and> type (fst (status (Suc 0)
        [''f'' \<mapsto> \<lparr>e_type = regular, e_perms = 0x1A4, e_target = ''''\<rparr>,
         ''l'' \<mapsto> \<lparr>e_type = symlink, e_perms = 0x1FF, e_target = ''f''\<rparr>] ''missing'')) = not_found
   \<and> snd (status (Suc 0)
        [''f'' \<mapsto> \<lparr>e_type = regular, e_perms = 0x1A4, e_target = ''''\<rparr>,
         ''l'' \<mapsto> \<lparr>e_type = symlink, e_perms = 0x1FF, e_target = ''f''\<rparr>] ''missing'') = None"
proof -
  let ?fs = "[''f'' \<mapsto> \<lparr>e_type = regular, e_perms = 0x1A4, e_target = ''''\<rparr>,
         ''l'' \<mapsto> \<lparr>e_type = symlink, e_perms = 0x1FF, e_target = ''f''\<rparr>] :: tree"
  let ?l = "\<lparr>e_type = symlink, e_perms = 0x1FF, e_target = ''f''\<rparr>"
  let ?f = "\<lparr>e_type = regular, e_perms = 0x1A4, e_target = ''''\<rparr>"
  have wf: "\<forall>q e'. ?fs q = Some e' \<longrightarrow> e_type e' \<noteq> none"
    by (auto split: if_splits)
  have l: "?fs ''l'' = Some ?l" and f: "?fs ''f'' = Some ?f" and m: "?fs ''missing'' = None"
    by simp_all
  note at_l = file_status_type_initialized [where fs = ?fs and path = "''l''" and e = ?l and n = 0]
  note at_f = file_status_type_initialized [where fs = ?fs and path = "''f''" and e = ?f and n = 0]
  note at_l1 = file_status_type_initialized [where fs = ?fs and path = "''l''" and n = "Suc 0"]
  note at_m = file_status_type_initialized [where fs = ?fs and path = "''missing''" and n = "Suc 0"]
  have 1: "type (fst (symlink_status ?fs ''l'')) = symlink"
    using at_l l by simp
  have step: "status (Suc 0) ?fs ''l'' = status 0 ?fs ''f''"
    using at_l l by simp
  have fin: "type (fst (status 0 ?fs ''f'')) = regular"
    "permissions (fst (status 0 ?fs ''f'')) = 0x1A4" "snd (status 0 ?fs ''f'') = None"
    using at_f f by simp_all
  have 2: "status (Suc 0) ?fs ''l'' = (file_status_ctor (Some regular) (Some 0x1A4), None)"
    using step by simp
  have 3: "type (fst (status (Suc 0) ?fs ''l'')) \<noteq> none"
    using at_l1 wf step fin by simp
  have 4: "status 0 ?fs ''l'' = (file_status_ctor None None, Some SymlinkLoop)"
    using at_l by simp
  have 5: "type (fst (status (Suc 0) ?fs ''missing'')) = not_found"
    "snd (status (Suc 0) ?fs ''missing'') = None"
    using at_m m by simp_all
  from 1 2 3 4 5 show ?thesis by blast
qed

section \<open>Validity of a handle\<close>

lemma try_take_cases:
  fixes native :: "'a::len word"
  shows "try_take_exclusive_file_lock native tbl path = ((SystemHandle_ctor, Some LockNotAcquired), tbl)
    \<or> try_take_exclusive_file_lock native tbl path = ((SystemHandle_ctor, Some IOError), tbl)
    \<or> (native \<noteq> - 1 \<and> try_take_exclusive_file_lock native tbl path
          = ((\<lparr>system_handle = native\<rparr>, None), (path, native) # tbl))"
  by (simp add: try_take_exclusive_file_lock_def)

text \<open>
  C7, as amended. A handle is valid if and only if its native value is not the sentinel
  \<open>- 1\<close>, and the default-constructed handle is invalid. The handle that
  \<open>try_take_exclusive_file_lock\<close> returns is valid exactly when the lock was acquired (the
  error code is cleared), and then the lock table holds it; otherwise it is the default
  handle and the table is unchanged. In a table without the sentinel, a handle that
  holds a lock is valid. Releasing a valid handle removes its lock from the table, and
  releasing an invalid one does nothing and is no error.
\<close>

theorem is_valid_iff_not_sentinel:
  fixes h :: "'a::len word SystemHandle"
  shows "(is_valid h \<longleftrightarrow> system_handle h \<noteq> - 1)
   \<and> \<not> is_valid (SystemHandle_ctor :: 'a word SystemHandle)
   \<and> (is_valid (fst (fst (try_take_exclusive_file_lock native tbl path)))
        \<longleftrightarrow> snd (fst (try_take_exclusive_file_lock native tbl path)) = None)
   \<and> (is_valid (fst (fst (try_take_exclusive_file_lock native tbl path)))
        \<longrightarrow> holds (snd (try_take_exclusive_file_lock native tbl path))
                   (fst (fst (try_take_exclusive_file_lock native tbl path))))
   \<and> (\<not> is_valid (fst (fst (try_take_exclusive_file_lock native tbl path)))
        \<longrightarrow> fst (fst (try_take_exclusive_file_lock native tbl path)) = SystemHandle_ctor
          \<and> snd (try_take_exclusive_file_lock native tbl path) = tbl)
   \<and> ((\<forall>e \<in> set tbl. snd e \<noteq> - 1) \<and> holds tbl h \<longrightarrow> is_valid h)
   \<and> (is_valid h \<longrightarrow> \<not> holds (snd (unlock_file_lock tbl h)) h)
   \<and> (\<not> is_valid h \<longrightarrow> unlock_file_lock tbl h = (None, tbl))"
proof -
  have sentinel: "is_valid h \<longleftrightarrow> system_handle h \<noteq> - 1"
    by (simp add: is_valid_def)
  have dflt: "\<not> is_valid (SystemHandle_ctor :: 'a word SystemHandle)"
    by (simp add: is_valid_def SystemHandle_ctor_def)
  have take: "(is_valid (fst (fst (try_take_exclusive_file_lock native tbl path)))
        \<longleftrightarrow> snd (fst (try_take_exclusive_file_lock native tbl path)) = None)
   \<and> (is_valid (fst (fst (try_take_exclusive_file_lock native tbl path)))
        \<longrightarrow> holds (snd (try_take_exclusive_file_lock native tbl path))
                   (fst (fst (try_take_exclusive_file_lock native tbl path))))
   \<and> (\<not> is_valid (fst (fst (try_take_exclusive_file_lock native tbl path)))
        \<longrightarrow> fst (fst (try_take_exclusive_file_lock native tbl path)) = SystemHandle_ctor
          \<and> snd (try_take_exclusive_file_lock native tbl path) = tbl)"
    using try_take_cases [of native tbl path] dflt
    by (auto simp: is_valid_def holds_def)
  have held: "(\<forall>e \<in> set tbl. snd e \<noteq> - 1) \<and> holds tbl h \<longrightarrow> is_valid h"
    by (auto simp: holds_def is_valid_def)
  have unlock: "is_valid h \<longrightarrow> \<not> holds (snd (unlock_file_lock tbl h)) h"
    by (auto simp: unlock_file_lock_def holds_def)
  have noop: "\<not> is_valid h \<longrightarrow> unlock_file_lock tbl h = (None, tbl)"
    by (simp add: unlock_file_lock_def)
  from sentinel dflt take held unlock noop show ?thesis by blast
qed

theorem is_valid_iff_not_sentinel_witness:
  "snd (''f'', 3 :: 32 word) \<noteq> - 1
   \<and> is_valid \<lparr>system_handle = 3 :: 32 word\<rparr>
   \<and> \<not> is_valid (SystemHandle_ctor :: SystemHandle_posix)
   \<and> try_take_exclusive_file_lock (3 :: 32 word) [] ''f''
        = ((\<lparr>system_handle = 3\<rparr>, None), [(''f'', 3)])
   \<and> holds [(''f'', 3)] \<lparr>system_handle = 3 :: 32 word\<rparr>
   \<and> \<not> holds (snd (unlock_file_lock [(''f'', 3)] \<lparr>system_handle = 3 :: 32 word\<rparr>))
         \<lparr>system_handle = 3 :: 32 word\<rparr>
   \<and> unlock_file_lock [(''f'', 3)] (SystemHandle_ctor :: SystemHandle_posix)
        = (None, [(''f'', 3)])"
  using is_valid_iff_not_sentinel
    [of "\<lparr>system_handle = 3 :: 32 word\<rparr>" 3 "[]" "''f''"]
    is_valid_iff_not_sentinel
    [of "\<lparr>system_handle = 3 :: 32 word\<rparr>" 3 "[(''f'', 3)]" "''f''"]
    is_valid_iff_not_sentinel
    [of "SystemHandle_ctor :: SystemHandle_posix" 3 "[(''f'', 3)]" "''f''"]
  by (simp add: try_take_exclusive_file_lock_def holds_def)

text \<open>
  C7 as stated fails: validity is not the same as holding a lock that was acquired and
  not yet released. A caller that acquires the lock on \<^verbatim>\<open>f\<close> gets the handle with native
  value 3; \<open>unlock_file_lock\<close> takes that handle by value and releases the lock, and the
  caller's handle, still 3, is valid although it holds nothing.
\<close>

theorem is_valid_after_release_counterexample:
  "try_take_exclusive_file_lock (3 :: 32 word) [] ''f''
     = ((\<lparr>system_handle = 3\<rparr>, None), [(''f'', 3)])
   \<and> unlock_file_lock [(''f'', 3)] \<lparr>system_handle = 3 :: 32 word\<rparr> = (None, [])
   \<and> \<not> (is_valid \<lparr>system_handle = 3 :: 32 word\<rparr>
          \<longleftrightarrow> holds [] \<lparr>system_handle = 3 :: 32 word\<rparr>)"
  by (simp add: try_take_exclusive_file_lock_def unlock_file_lock_def is_valid_def holds_def)

end
